theory Spec2Isabelle
  imports Complex_Main
begin

section \<open>The host: DOM nodes, windows and collaborators\<close>

text \<open>
  The module \<^verbatim>\<open>lib/sdk/panel/utils.js\<close> drives a XUL arrow panel through the host's
  DOM. Every JavaScript object the module touches (window, document, element, frame) is
  a reference into one store, the record \<open>world\<close>; a property of an object is a field of
  the store indexed by the reference, \<open>None\<close> standing for \<^verbatim>\<open>null\<close>/\<^verbatim>\<open>undefined\<close>.
  JavaScript numbers are modelled as exact rationals (no rounding, no NaN, no infinity).
  An exception is a value: a procedure ends in \<open>Returns v w\<close> or in \<open>Throws e w\<close>, and in
  both cases \<open>w\<close> holds the mutations made so far.
\<close>

type_synonym ref = nat
type_synonym number = rat

datatype error = TypeError | NotFoundError | HierarchyRequestError

text \<open>\<open>Px n\<close> stands for the string \<^verbatim>\<open>n + "px"\<close>, \<open>Number n\<close> for a number assigned to a
  style property, \<open>Literal s\<close> for a string literal.\<close>

datatype css_value = Px number | Number number | Literal string

text \<open>The closures that \<^verbatim>\<open>make\<close> creates, each with the variables it closes over
  (the panel; for \<^verbatim>\<open>onDisplayChange\<close> also the background and the view frame).\<close>

datatype handler =
    OnDisplayChange ref ref ref
  | OnContentReady ref
  | OnContentLoad ref
  | OnContentChange ref
  | OnPanelStateChange ref

text \<open>A pending \<^verbatim>\<open>setTimeout(open, delay, panel, width, height, anchor)\<close>.\<close>

datatype callback = OpenCallback ref number number "ref option"

text \<open>Calls into host primitives and collaborators whose effect lies outside the module;
  the store keeps them in the order they were made.\<close>

datatype call =
    OpenPopup ref "ref option" "string option" "number option" "number option"
  | HidePopup ref
  | SizeTo ref number number
  | Emit "string option" ref
  | ConsoleError string
  | ConsoleException error

record frame_options =
  allowJavascript :: bool
  allowPlugins :: bool
  allowAuth :: bool
  allowWindowControl :: bool
  browser :: bool
  uri :: string

record event =
  type :: string
  target :: "ref option"
  subject :: "ref option"

record world =
  nextRef :: ref
  parentNode :: "ref \<Rightarrow> ref option"
  childNodes :: "ref \<Rightarrow> ref list"
  ownerDocument :: "ref \<Rightarrow> ref option"
  nodeName :: "ref \<Rightarrow> string"
  namespaceURI :: "ref \<Rightarrow> string"
  elemId :: "ref \<Rightarrow> string"
  textContent :: "ref \<Rightarrow> string"
  attributes :: "ref \<Rightarrow> string \<Rightarrow> string option"
  styleProp :: "ref \<Rightarrow> string \<Rightarrow> css_value option"
  clientWidth :: "ref \<Rightarrow> number"
  clientHeight :: "ref \<Rightarrow> number"
  rectLeft :: "ref \<Rightarrow> number"
  rectTop :: "ref \<Rightarrow> number"
  documentElement :: "ref \<Rightarrow> ref option"
  head :: "ref \<Rightarrow> ref option"
  defaultView :: "ref \<Rightarrow> ref option"
  elementById :: "ref \<Rightarrow> string \<Rightarrow> ref option"
  windowDocument :: "ref \<Rightarrow> ref option"
  mozScreenPixelsPerCSSPixel :: "ref \<Rightarrow> number"
  mozInnerScreenX :: "ref \<Rightarrow> number"
  mozInnerScreenY :: "ref \<Rightarrow> number"
  availHeight :: "ref \<Rightarrow> number"
  availWidth :: "ref \<Rightarrow> number"
  computedColor :: "ref \<Rightarrow> string"
  contentDocument :: "ref \<Rightarrow> ref option"
  frameConfig :: "ref \<Rightarrow> frame_options option"
  popupState :: "ref \<Rightarrow> string option"
  has_openPopup :: "ref \<Rightarrow> bool"
  has_hidePopup :: "ref \<Rightarrow> bool"
  backgroundFrame :: "ref \<Rightarrow> ref option"
  onContentChange :: "ref \<Rightarrow> handler option"
  anonymousElement :: "ref \<Rightarrow> string \<Rightarrow> string \<Rightarrow> ref option"
  eventListeners :: "ref \<Rightarrow> (string \<times> handler \<times> bool) list"
  observers :: "(string \<times> handler) list"
  timers :: "(callback \<times> nat) list"
  calls :: "call list"
  platform :: string
  mostRecentBrowserWindow :: "ref option"
  addonWindow :: ref

datatype 'a outcome = Returns 'a world | Throws error world


section \<open>DOM primitives of the host\<close>

text \<open>
  The tree operations of the DOM (\<^verbatim>\<open>firstChild\<close>, \<^verbatim>\<open>removeChild\<close>, \<^verbatim>\<open>appendChild\<close>,
  \<^verbatim>\<open>insertBefore\<close>, \<^verbatim>\<open>createElementNS\<close>, \<^verbatim>\<open>setAttribute\<close>) are host API, written
  here after the DOM standard: a node has at most one parent, inserting a node unlinks
  it from its old parent first, inserting a node below itself raises
  \<open>HierarchyRequestError\<close>, removing a node from a parent that is not its own raises
  \<open>NotFoundError\<close>. The ancestor walk is bounded by the number of allocated nodes.
\<close>

definition firstChild :: "world \<Rightarrow> ref \<Rightarrow> ref option" where
  "firstChild w n = (case childNodes w n of [] \<Rightarrow> None | c # _ \<Rightarrow> Some c)"

fun inclusive_ancestor :: "nat \<Rightarrow> world \<Rightarrow> ref \<Rightarrow> ref \<Rightarrow> bool" where
  "inclusive_ancestor 0 w a n = (a = n)"
| "inclusive_ancestor (Suc k) w a n =
     (a = n \<or> (case parentNode w n of None \<Rightarrow> False | Some q \<Rightarrow> inclusive_ancestor k w a q))"

definition unlink :: "world \<Rightarrow> ref \<Rightarrow> world" where
  "unlink w n =
     (case parentNode w n of
        None \<Rightarrow> w
      | Some q \<Rightarrow> w\<lparr>childNodes := (childNodes w)(q := remove1 n (childNodes w q)),
                     parentNode := (parentNode w)(n := None)\<rparr>)"

definition removeChild :: "world \<Rightarrow> ref \<Rightarrow> ref \<Rightarrow> unit outcome" where
  "removeChild w parent child =
     (if parentNode w child = Some parent then Returns () (unlink w child)
      else Throws NotFoundError w)"

definition appendChild :: "world \<Rightarrow> ref \<Rightarrow> ref \<Rightarrow> unit outcome" where
  "appendChild w parent child =
     (if inclusive_ancestor (nextRef w) w child parent then Throws HierarchyRequestError w
      else let w1 = unlink w child in
        Returns () (w1\<lparr>childNodes := (childNodes w1)(parent := childNodes w1 parent @ [child]),
                       parentNode := (parentNode w1)(child := Some parent)\<rparr>))"

fun insert_before :: "ref \<Rightarrow> ref \<Rightarrow> ref list \<Rightarrow> ref list" where
  "insert_before x r [] = [x]"
| "insert_before x r (y # ys) = (if y = r then x # y # ys else y # insert_before x r ys)"

definition insertBefore :: "world \<Rightarrow> ref \<Rightarrow> ref \<Rightarrow> ref \<Rightarrow> unit outcome" where
  "insertBefore w parent child reference =
     (if inclusive_ancestor (nextRef w) w child parent then Throws HierarchyRequestError w
      else if parentNode w reference \<noteq> Some parent then Throws NotFoundError w
      else if child = reference then Returns () w
      else let w1 = unlink w child in
        Returns () (w1\<lparr>childNodes :=
                         (childNodes w1)(parent := insert_before child reference (childNodes w1 parent)),
                       parentNode := (parentNode w1)(child := Some parent)\<rparr>))"

text \<open>A new element takes the next free reference. It has no parent, no children, no
  attributes, no inline style, no listeners and no expando properties, and it is not a
  window. What the host decides for it (its binding, its geometry, the document a frame
  loads) is whatever the store holds at that reference.\<close>

definition createElementNS :: "world \<Rightarrow> ref \<Rightarrow> string \<Rightarrow> string \<Rightarrow> ref \<times> world" where
  "createElementNS w document ns name =
     (let n = nextRef w in
      (n, w\<lparr>nextRef := Suc n,
             parentNode := (parentNode w)(n := None),
             childNodes := (childNodes w)(n := []),
             ownerDocument := (ownerDocument w)(n := Some document),
             nodeName := (nodeName w)(n := name),
             namespaceURI := (namespaceURI w)(n := ns),
             elemId := (elemId w)(n := []),
             textContent := (textContent w)(n := []),
             attributes := (attributes w)(n := Map.empty),
             styleProp := (styleProp w)(n := Map.empty),
             windowDocument := (windowDocument w)(n := None),
             frameConfig := (frameConfig w)(n := None),
             backgroundFrame := (backgroundFrame w)(n := None),
             onContentChange := (onContentChange w)(n := None),
             eventListeners := (eventListeners w)(n := [])\<rparr>))"

definition XHTML_NS :: string where
  "XHTML_NS = ''http://www.w3.org/1999/xhtml''"

definition createElement :: "world \<Rightarrow> ref \<Rightarrow> string \<Rightarrow> ref \<times> world" where
  "createElement w document name = createElementNS w document XHTML_NS name"

definition setAttribute :: "world \<Rightarrow> ref \<Rightarrow> string \<Rightarrow> string \<Rightarrow> world" where
  "setAttribute w n name val = w\<lparr>attributes := (attributes w)(n := (attributes w n)(name \<mapsto> val))\<rparr>"

definition setStyle :: "world \<Rightarrow> ref \<Rightarrow> string \<Rightarrow> css_value \<Rightarrow> world" where
  "setStyle w n name val = w\<lparr>styleProp := (styleProp w)(n := (styleProp w n)(name \<mapsto> val))\<rparr>"

definition addEventListener :: "world \<Rightarrow> ref \<Rightarrow> string \<Rightarrow> handler \<Rightarrow> bool \<Rightarrow> world" where
  "addEventListener w n name h capture =
     w\<lparr>eventListeners := (eventListeners w)(n := eventListeners w n @ [(name, h, capture)])\<rparr>"

definition getElementById :: "world \<Rightarrow> ref \<Rightarrow> string \<Rightarrow> ref option" where
  "getElementById w document ident = elementById w document ident"

definition getAnonymousElementByAttribute ::
  "world \<Rightarrow> ref \<Rightarrow> ref \<Rightarrow> string \<Rightarrow> string \<Rightarrow> ref option" where
  "getAnonymousElementByAttribute w document element attr val = anonymousElement w element attr val"

definition record_call :: "world \<Rightarrow> call \<Rightarrow> world" where
  "record_call w c = w\<lparr>calls := calls w @ [c]\<rparr>"

section \<open>Collaborators outside the module\<close>

text \<open>Modelled from the spec: the timer module (\<^verbatim>\<open>../timers\<close>, not among the sources).
  \<^verbatim>\<open>setTimeout\<close> queues the callback with its delay and returns at once; the callback
  fires later on the same thread.\<close>

definition setTimeout :: "world \<Rightarrow> callback \<Rightarrow> nat \<Rightarrow> world" where
  "setTimeout w cb delay = w\<lparr>timers := timers w @ [(cb, delay)]\<rparr>"

text \<open>Modelled from the spec: the global event bus (\<^verbatim>\<open>../system/events\<close>, not among the
  sources), with \<^verbatim>\<open>on(eventName, handler)\<close>, \<^verbatim>\<open>off(eventName, handler)\<close> and
  \<^verbatim>\<open>emit(eventName, {subject})\<close>. The registry holds a handler at most once per event
  name; \<^verbatim>\<open>off\<close> removes it. The listeners of the events this module emits live in other
  modules, so an emission is kept as a call.\<close>

definition events_on :: "world \<Rightarrow> string \<Rightarrow> handler \<Rightarrow> world" where
  "events_on w name h =
     (if (name, h) \<in> set (observers w) then w else w\<lparr>observers := observers w @ [(name, h)]\<rparr>)"

definition events_off :: "world \<Rightarrow> string \<Rightarrow> handler option \<Rightarrow> world" where
  "events_off w name h =
     (case h of None \<Rightarrow> w
      | Some h' \<Rightarrow> w\<lparr>observers := removeAll (name, h') (observers w)\<rparr>)"

definition events_emit :: "world \<Rightarrow> string option \<Rightarrow> ref \<Rightarrow> world" where
  "events_emit w name panel = record_call w (Emit name panel)"

text \<open>Modelled from the spec: \<^verbatim>\<open>getMostRecentBrowserWindow\<close> of \<^verbatim>\<open>../window/utils\<close>
  (not among the sources), the most recently active host window, if there is one.\<close>

definition getMostRecentBrowserWindow :: "world \<Rightarrow> ref option" where
  "getMostRecentBrowserWindow w = mostRecentBrowserWindow w"

text \<open>The expression \<^verbatim>\<open>document || getMostRecentBrowserWindow().document\<close>.\<close>

definition document_or_default :: "world \<Rightarrow> ref option \<Rightarrow> error + ref option" where
  "document_or_default w document =
     (case document of
        Some d \<Rightarrow> Inr (Some d)
      | None \<Rightarrow> (case getMostRecentBrowserWindow w of
                   None \<Rightarrow> Inl TypeError
                 | Some win \<Rightarrow> Inr (windowDocument w win)))"

section \<open>The module \<^verbatim>\<open>lib/sdk/panel/utils.js\<close>\<close>

definition XUL_NS :: string where
  "XUL_NS = ''http://www.mozilla.org/keymaster/gatekeeper/there.is.only.xul''"

definition isOpen :: "world \<Rightarrow> ref \<Rightarrow> bool" where
  "isOpen w panel = (popupState w panel = Some ''open'')"

definition close :: "world \<Rightarrow> ref \<Rightarrow> unit outcome" where
  "close w panel =
     (if has_hidePopup w panel then Returns () (record_call w (HidePopup panel))
      else Returns () w)"

definition resize :: "world \<Rightarrow> ref \<Rightarrow> number \<Rightarrow> number \<Rightarrow> unit outcome" where
  "resize w panel width height =
     (case firstChild w panel of
        None \<Rightarrow> Throws TypeError w
      | Some frame \<Rightarrow>
          let w1 = setStyle w frame ''width'' (Px width);
              w2 = setStyle w1 frame ''height'' (Px height)
          in Returns () w2)"

definition shimDefaultStyle :: "world \<Rightarrow> ref \<Rightarrow> unit outcome" where
  "shimDefaultStyle w panel =
     (case ownerDocument w panel of
        None \<Rightarrow> Throws TypeError w
      | Some document \<Rightarrow>
          Returns ()
            (fold (\<lambda>val w'.
                     case getAnonymousElementByAttribute w' document panel ''class'' val of
                       None \<Rightarrow> w'
                     | Some node \<Rightarrow> setStyle w' node ''padding'' (Number 0))
                  [''panel-inner-arrowcontent'', ''panel-arrowcontent''] w))"

text \<open>\<^verbatim>\<open>display\<close>: the style shim, then the placement (centred without an anchor, by the
  anchor otherwise), then the resize of the panel's first child, then the host's
  \<^verbatim>\<open>openPopup(anchor, position, x, y)\<close>.\<close>

definition display :: "world \<Rightarrow> ref \<Rightarrow> number \<Rightarrow> number \<Rightarrow> ref option \<Rightarrow> unit outcome" where
  "display w panel width height anchor =
     (let document = ownerDocument w panel in
      case shimDefaultStyle w panel of
        Throws e w1 \<Rightarrow> Throws e w1
      | Returns _ w1 \<Rightarrow>
         (case
            (case anchor of
               None \<Rightarrow>
                 (case document of
                    None \<Rightarrow> Throws TypeError w1
                  | Some d \<Rightarrow>
                     (case documentElement w1 d of
                        None \<Rightarrow> Throws TypeError w1
                      | Some rootElement \<Rightarrow>
                          Returns (Some (clientWidth w1 rootElement / 2 - width / 2),
                                   Some (clientHeight w1 rootElement / 2 - height / 2),
                                   None) w1))
             | Some a \<Rightarrow>
                 (case ownerDocument w1 a of
                    None \<Rightarrow> Throws TypeError w1
                  | Some adoc \<Rightarrow>
                     (case defaultView w1 adoc of
                        None \<Rightarrow> Throws TypeError w1
                      | Some window \<Rightarrow>
                          let zoom = mozScreenPixelsPerCSSPixel w1 window;
                              screenX = rectLeft w1 a + mozInnerScreenX w1 window * zoom;
                              screenY = rectTop w1 a + mozInnerScreenY w1 window * zoom;
                              vertical = (if screenY > availHeight w1 window / 2 + height
                                          then ''top'' else ''bottom'');
                              horizontal = (if screenY > availWidth w1 window / 2 + width
                                            then ''left'' else ''right'');
                              verticalInverse = (if vertical = ''top'' then ''bottom'' else ''top'');
                              position = vertical @ ''center '' @ verticalInverse @ horizontal
                          in Returns (None, None, Some position)
                               (setAttribute w1 panel ''flip'' ''both''))))
          of
            Throws e w2 \<Rightarrow> Throws e w2
          | Returns (x, y, position) w2 \<Rightarrow>
             (case firstChild w2 panel of
                None \<Rightarrow> Throws TypeError w2
              | Some frame \<Rightarrow>
                  let w3 = setStyle w2 frame ''width'' (Px width);
                      w4 = setStyle w3 frame ''height'' (Px height)
                  in if has_openPopup w4 panel
                     then Returns () (record_call w4 (OpenPopup panel anchor position x y))
                     else Throws TypeError w4)))"

definition open' :: "world \<Rightarrow> ref \<Rightarrow> number \<Rightarrow> number \<Rightarrow> ref option \<Rightarrow> unit outcome" where
  "open' w panel width height anchor =
     (if \<not> has_openPopup w panel
      then Returns () (setTimeout w (OpenCallback panel width height anchor) 50)
      else display w panel width height anchor)"


definition getContentFrame :: "world \<Rightarrow> ref \<Rightarrow> ref option" where
  "getContentFrame w panel = (if isOpen w panel then firstChild w panel else backgroundFrame w panel)"

definition getContentDocument :: "world \<Rightarrow> ref \<Rightarrow> error + ref option" where
  "getContentDocument w panel =
     (case getContentFrame w panel of
        None \<Rightarrow> Inl TypeError
      | Some frame \<Rightarrow> Inr (contentDocument w frame))"

definition setURL :: "world \<Rightarrow> ref \<Rightarrow> string \<Rightarrow> unit outcome" where
  "setURL w panel url =
     (case getContentFrame w panel of
        None \<Rightarrow> Throws TypeError w
      | Some frame \<Rightarrow> Returns () (setAttribute w frame ''src'' url))"

text \<open>The body of the \<^verbatim>\<open>try\<close> block of \<^verbatim>\<open>style\<close>. Every read precedes the creation of
  the style element, so an exception before that point leaves the store as it was.\<close>

definition style_try :: "world \<Rightarrow> ref \<Rightarrow> unit outcome" where
  "style_try w panel =
     (let document = ownerDocument w panel in
      case getContentDocument w panel of
        Inl e \<Rightarrow> Throws e w
      | Inr contentDoc \<Rightarrow>
         (case document of
            None \<Rightarrow> Throws TypeError w
          | Some d \<Rightarrow>
             (let window = defaultView w d;
                  node = (case getAnonymousElementByAttribute w d panel ''class'' ''panel-arrowcontent'' of
                            Some n \<Rightarrow> Some n
                          | None \<Rightarrow>
                              getAnonymousElementByAttribute w d panel ''class''
                                ''panel-inner-arrowcontent'')
              in case window of
                   None \<Rightarrow> Throws TypeError w
                 | Some win \<Rightarrow>
                    (case node of
                       None \<Rightarrow> Throws TypeError w
                     | Some nd \<Rightarrow>
                        (let color = computedColor w nd in
                         case contentDoc of
                           None \<Rightarrow> Throws TypeError w
                         | Some cd \<Rightarrow>
                            (let (styleNode, w1) = createElement w cd ''style'';
                                 w2 = w1\<lparr>elemId := (elemId w1)(styleNode := ''sdk-panel-style'')\<rparr>;
                                 w3 = w2\<lparr>textContent :=
                                          (textContent w2)(styleNode := ''body { color: '' @ color @ ''; }'')\<rparr>;
                                 container = (case head w3 cd of
                                                Some h \<Rightarrow> Some h
                                              | None \<Rightarrow> documentElement w3 cd)
                             in case container of
                                  None \<Rightarrow> Throws TypeError w3
                                | Some c \<Rightarrow>
                                   (case firstChild w3 c of
                                      Some fc \<Rightarrow> insertBefore w3 c styleNode fc
                                    | None \<Rightarrow> appendChild w3 c styleNode)))))))"

definition style :: "world \<Rightarrow> ref \<Rightarrow> unit outcome" where
  "style w panel =
     (case style_try w panel of
        Returns _ w1 \<Rightarrow> Returns () w1
      | Throws e w1 \<Rightarrow>
          Returns () (record_call (record_call w1 (ConsoleError ''Unable to apply panel style''))
                                  (ConsoleException e)))"

definition detach :: "world \<Rightarrow> ref \<Rightarrow> unit outcome" where
  "detach w panel =
     (case parentNode w panel of
        None \<Rightarrow> Returns () w
      | Some q \<Rightarrow> removeChild w q panel)"

definition attach :: "world \<Rightarrow> ref \<Rightarrow> ref option \<Rightarrow> unit outcome" where
  "attach w panel document =
     (case document_or_default w document of
        Inl e \<Rightarrow> Throws e w
      | Inr None \<Rightarrow> Throws TypeError w
      | Inr (Some d) \<Rightarrow>
          (let container = getElementById w d ''mainPopupSet'' in
           if container \<noteq> parentNode w panel then
             (case detach w panel of
                Throws e w1 \<Rightarrow> Throws e w1
              | Returns _ w1 \<Rightarrow>
                 (case getElementById w1 d ''mainPopupSet'' of
                    None \<Rightarrow> Throws TypeError w1
                  | Some c \<Rightarrow> appendChild w1 c panel))
           else Returns () w))"

definition dispose :: "world \<Rightarrow> ref \<Rightarrow> unit outcome" where
  "dispose w panel =
     (case backgroundFrame w panel of
        None \<Rightarrow> Throws TypeError w
      | Some bf \<Rightarrow>
         (case parentNode w bf of
            None \<Rightarrow> Throws TypeError w
          | Some q \<Rightarrow>
             (case removeChild w q bf of
                Throws e w1 \<Rightarrow> Throws e w1
              | Returns _ w1 \<Rightarrow>
                 (let w2 = w1\<lparr>backgroundFrame := (backgroundFrame w1)(panel := None)\<rparr>;
                      w3 = events_off w2 ''document-element-inserted'' (onContentChange w2 panel);
                      w4 = w3\<lparr>onContentChange := (onContentChange w3)(panel := None)\<rparr>
                  in detach w4 panel))))"

subsection \<open>\<^verbatim>\<open>make\<close> and the handlers it registers\<close>

definition EVENT_NAMES :: "string \<Rightarrow> string option" where
  "EVENT_NAMES = map_of
     [(''popupshowing'', ''sdk-panel-show''),
      (''popuphiding'', ''sdk-panel-hide''),
      (''popupshown'', ''sdk-panel-shown''),
      (''popuphidden'', ''sdk-panel-hidden''),
      (''document-element-inserted'', ''sdk-panel-content-changed''),
      (''DOMContentLoaded'', ''sdk-panel-content-loaded''),
      (''load'', ''sdk-panel-document-loaded'')]"

text \<open>Modelled from the spec: \<^verbatim>\<open>create\<close> and \<^verbatim>\<open>swapFrameLoaders\<close> of \<^verbatim>\<open>../frame/utils\<close>
  (not among the sources). \<^verbatim>\<open>create\<close> makes a content frame with the given configuration
  as the last child of its target (of the root element of the target's document when the
  target is a window). \<^verbatim>\<open>swapFrameLoaders\<close> exchanges the live content of two frames
  without reloading it; it fails on a node that is not such a frame.\<close>

definition createFrame :: "world \<Rightarrow> ref \<Rightarrow> frame_options \<Rightarrow> ref outcome" where
  "createFrame w target' options =
     (case (case windowDocument w target' of
              Some d \<Rightarrow> documentElement w d
            | None \<Rightarrow> Some target') of
        None \<Rightarrow> Throws TypeError w
      | Some parent \<Rightarrow>
         (case ownerDocument w parent of
            None \<Rightarrow> Throws TypeError w
          | Some d \<Rightarrow>
             (let (frame, w1) = createElementNS w d XUL_NS (if browser options then ''browser'' else ''iframe'');
                  w2 = w1\<lparr>frameConfig := (frameConfig w1)(frame := Some options)\<rparr>
              in case appendChild w2 parent frame of
                   Throws e w3 \<Rightarrow> Throws e w3
                 | Returns _ w3 \<Rightarrow> Returns frame w3)))"

definition swapFrameLoaders :: "world \<Rightarrow> ref \<Rightarrow> ref \<Rightarrow> unit outcome" where
  "swapFrameLoaders w from to =
     (if frameConfig w from = None \<or> frameConfig w to = None then Throws TypeError w
      else Returns () (w\<lparr>contentDocument :=
                            (contentDocument w)(from := contentDocument w to,
                                                to := contentDocument w from)\<rparr>))"

definition setupPanelFrame :: "world \<Rightarrow> ref \<Rightarrow> world" where
  "setupPanelFrame w frame =
     (let w1 = setAttribute w frame ''flex'' ''1'';
          w2 = setAttribute w1 frame ''transparent'' ''transparent'';
          w3 = setAttribute w2 frame ''showcaret'' ''true'';
          w4 = setAttribute w3 frame ''autocompleteenabled'' ''true''
      in if platform w4 = ''darwin''
         then setStyle (setStyle w4 frame ''borderRadius'' (Literal ''6px''))
                       frame ''padding'' (Literal ''1px'')
         else w4)"

definition frameOptions :: frame_options where
  "frameOptions = \<lparr>allowJavascript = True, allowPlugins = True, allowAuth = True,
                   allowWindowControl = False, browser = False,
                   uri = ''data:text/plain;charset=utf-8,''\<rparr>"

definition make_onDisplayChange :: "world \<Rightarrow> ref \<Rightarrow> ref \<Rightarrow> ref \<Rightarrow> event \<Rightarrow> unit outcome" where
  "make_onDisplayChange w panel backgroundFrame' viewFrame ev =
     (let w1 = (case swapFrameLoaders w backgroundFrame' viewFrame of
                  Returns _ w' \<Rightarrow> w'
                | Throws e w' \<Rightarrow> record_call w' (ConsoleException e))
      in Returns () (events_emit w1 (EVENT_NAMES (type ev)) panel))"

definition make_onContentReady :: "world \<Rightarrow> ref \<Rightarrow> event \<Rightarrow> unit outcome" where
  "make_onContentReady w panel ev =
     (case getContentDocument w panel of
        Inl e \<Rightarrow> Throws e w
      | Inr contentDoc \<Rightarrow>
          if target ev = contentDoc then
            (case style w panel of
               Throws e w1 \<Rightarrow> Throws e w1
             | Returns _ w1 \<Rightarrow> Returns () (events_emit w1 (EVENT_NAMES (type ev)) panel))
          else Returns () w)"

definition make_onContentLoad :: "world \<Rightarrow> ref \<Rightarrow> event \<Rightarrow> unit outcome" where
  "make_onContentLoad w panel ev =
     (case getContentDocument w panel of
        Inl e \<Rightarrow> Throws e w
      | Inr contentDoc \<Rightarrow>
          if target ev = contentDoc
          then Returns () (events_emit w (EVENT_NAMES (type ev)) panel)
          else Returns () w)"

definition make_onContentChange :: "world \<Rightarrow> ref \<Rightarrow> event \<Rightarrow> unit outcome" where
  "make_onContentChange w panel ev =
     (let document = subject ev in
      case getContentDocument w panel of
        Inl e \<Rightarrow> Throws e w
      | Inr contentDoc \<Rightarrow>
          if document = contentDoc then
            (case document of
               None \<Rightarrow> Throws TypeError w
             | Some d \<Rightarrow>
                 if defaultView w d \<noteq> None
                 then Returns () (events_emit w (EVENT_NAMES (type ev)) panel)
                 else Returns () w)
          else Returns () w)"

definition make_onPanelStateChange :: "world \<Rightarrow> ref \<Rightarrow> event \<Rightarrow> unit outcome" where
  "make_onPanelStateChange w panel ev = Returns () (events_emit w (EVENT_NAMES (type ev)) panel)"

definition make :: "world \<Rightarrow> ref option \<Rightarrow> ref outcome" where
  "make w document =
     (case document_or_default w document of
        Inl e \<Rightarrow> Throws e w
      | Inr None \<Rightarrow> Throws TypeError w
      | Inr (Some d) \<Rightarrow>
         (let (panel, w1) = createElementNS w d XUL_NS ''panel'';
              w2 = setAttribute w1 panel ''type'' ''arrow''
          in case attach w2 panel (Some d) of
               Throws e w3 \<Rightarrow> Throws e w3
             | Returns _ w3 \<Rightarrow>
                (case createFrame w3 (addonWindow w3) frameOptions of
                   Throws e w4 \<Rightarrow> Throws e w4
                 | Returns backgroundFrame' w4 \<Rightarrow>
                    (case createFrame (setupPanelFrame w4 backgroundFrame') panel frameOptions of
                       Throws e w5 \<Rightarrow> Throws e w5
                     | Returns viewFrame w5 \<Rightarrow>
                        (let w6 = setupPanelFrame w5 viewFrame;
                             onDisplayChange = OnDisplayChange panel backgroundFrame' viewFrame;
                             onContentReady = OnContentReady panel;
                             onContentLoad = OnContentLoad panel;
                             onContentChange' = OnContentChange panel;
                             onPanelStateChange = OnPanelStateChange panel;
                             w7 = addEventListener w6 panel ''popupshowing'' onDisplayChange False;
                             w8 = addEventListener w7 panel ''popuphiding'' onDisplayChange False;
                             w9 = addEventListener w8 panel ''popupshown'' onPanelStateChange False;
                             w10 = addEventListener w9 panel ''popuphidden'' onPanelStateChange False;
                             w11 = addEventListener w10 panel ''DOMContentLoaded'' onContentReady True;
                             w12 = addEventListener w11 backgroundFrame' ''DOMContentLoaded''
                                     onContentReady True;
                             w13 = addEventListener w12 panel ''load'' onContentLoad True;
                             w14 = addEventListener w13 backgroundFrame' ''load'' onContentLoad True;
                             w15 = events_on w14 ''document-element-inserted'' onContentChange';
                             w16 = w15\<lparr>backgroundFrame :=
                                         (backgroundFrame w15)(panel := Some backgroundFrame')\<rparr>;
                             w17 = w16\<lparr>onContentChange :=
                                         (onContentChange w16)(panel := Some onContentChange')\<rparr>
                         in Returns panel w17)))))"

subsection \<open>The host's event loop\<close>

text \<open>What the host does with a registered handler: it calls the closure with the event.\<close>

fun invoke :: "handler \<Rightarrow> event \<Rightarrow> world \<Rightarrow> unit outcome" where
  "invoke (OnDisplayChange panel bf vf) ev w = make_onDisplayChange w panel bf vf ev"
| "invoke (OnContentReady panel) ev w = make_onContentReady w panel ev"
| "invoke (OnContentLoad panel) ev w = make_onContentLoad w panel ev"
| "invoke (OnContentChange panel) ev w = make_onContentChange w panel ev"
| "invoke (OnPanelStateChange panel) ev w = make_onPanelStateChange w panel ev"

text \<open>Modelled from the spec: the synchronous dispatch of the global event bus
  (\<^verbatim>\<open>../system/events\<close>, not among the sources). A global notification calls, in
  registration order, the handlers registered under its name.\<close>

definition observers_for :: "world \<Rightarrow> string \<Rightarrow> handler list" where
  "observers_for w name = map snd (filter (\<lambda>entry. fst entry = name) (observers w))"

fun invoke_all :: "handler list \<Rightarrow> event \<Rightarrow> world \<Rightarrow> unit outcome" where
  "invoke_all [] ev w = Returns () w"
| "invoke_all (h # hs) ev w =
     (case invoke h ev w of
        Throws e w1 \<Rightarrow> Throws e w1
      | Returns _ w1 \<Rightarrow> invoke_all hs ev w1)"

definition notifyObservers :: "world \<Rightarrow> string \<Rightarrow> ref option \<Rightarrow> unit outcome" where
  "notifyObservers w name subj =
     invoke_all (observers_for w name) \<lparr>type = name, target = None, subject = subj\<rparr> w"

text \<open>Modelled from the spec: the firing of a timer (\<^verbatim>\<open>../timers\<close>, not among the
  sources). The oldest pending callback leaves the queue and runs; the only callback this
  module ever queues is \<^verbatim>\<open>open\<close> with its four arguments.\<close>

fun run_callback :: "callback \<Rightarrow> world \<Rightarrow> unit outcome" where
  "run_callback (OpenCallback panel width height anchor) w = open' w panel width height anchor"

definition fire_timer :: "world \<Rightarrow> unit outcome" where
  "fire_timer w =
     (case timers w of
        [] \<Rightarrow> Returns () w
      | (cb, delay) # rest \<Rightarrow> run_callback cb (w\<lparr>timers := rest\<rparr>))"

text \<open>Between two timer firings the host may construct the binding of a panel, which
  makes its popup methods available.\<close>

datatype host_event = TimerFires | BindingConstructed ref

fun host_step :: "host_event \<Rightarrow> world \<Rightarrow> unit outcome" where
  "host_step TimerFires w = fire_timer w"
| "host_step (BindingConstructed panel) w =
     Returns () (w\<lparr>has_openPopup := (has_openPopup w)(panel := True),
                    has_hidePopup := (has_hidePopup w)(panel := True)\<rparr>)"

fun run_events :: "host_event list \<Rightarrow> world \<Rightarrow> unit outcome" where
  "run_events [] w = Returns () w"
| "run_events (ev # evs) w =
     (case host_step ev w of
        Throws e w1 \<Rightarrow> Throws e w1
      | Returns _ w1 \<Rightarrow> run_events evs w1)"


section \<open>Observing outcomes and the tree\<close>

fun world_of :: "'a outcome \<Rightarrow> world" where
  "world_of (Returns v w) = w"
| "world_of (Throws e w) = w"

fun returns :: "'a outcome \<Rightarrow> bool" where
  "returns (Returns v w) = True"
| "returns (Throws e w) = False"



text \<open>The children of a container that carry the fixed identifier of the injected
  stylesheet.\<close>

definition injected_styles :: "world \<Rightarrow> ref \<Rightarrow> ref list" where
  "injected_styles w container =
     filter (\<lambda>n. elemId w n = ''sdk-panel-style'') (childNodes w container)"

fun value_of :: "'a outcome \<Rightarrow> 'a option" where
  "value_of (Returns v w) = Some v"
| "value_of (Throws e w) = None"

text \<open>\<^verbatim>\<open>style(panel)\<close> called \<open>n\<close> times in a row.\<close>

fun style_times :: "nat \<Rightarrow> world \<Rightarrow> ref \<Rightarrow> world" where
  "style_times 0 w panel = w"
| "style_times (Suc n) w panel = style_times n (world_of (style w panel)) panel"

text \<open>What \<^verbatim>\<open>style(panel)\<close> needs in order to inject its stylesheet into \<open>container\<close>: the
  panel has an owner document with a window and a themed anonymous node; its active
  content document exists and has \<open>container\<close> as head (as root element when it has no
  head); the container is not the panel; the panel, the container, the container's
  children and every parent of an allocated node are allocated, and the parent pointer
  of the container's children is the container.\<close>

definition style_ready :: "world \<Rightarrow> ref \<Rightarrow> ref \<Rightarrow> bool" where
  "style_ready w panel container =
     (panel < nextRef w \<and> container < nextRef w \<and> container \<noteq> panel
      \<and> (case ownerDocument w panel of
            None \<Rightarrow> False
          | Some d \<Rightarrow>
              defaultView w d \<noteq> None
              \<and> (case getAnonymousElementByAttribute w d panel ''class'' ''panel-arrowcontent'' of
                     Some n \<Rightarrow> True
                   | None \<Rightarrow> getAnonymousElementByAttribute w d panel ''class''
                               ''panel-inner-arrowcontent'' \<noteq> None))
      \<and> (case getContentDocument w panel of
            Inr (Some cd) \<Rightarrow>
              (case head w cd of Some h \<Rightarrow> Some h | None \<Rightarrow> documentElement w cd) = Some container
          | _ \<Rightarrow> False)
      \<and> list_all (\<lambda>n. n < nextRef w \<and> parentNode w n = Some container) (childNodes w container)
      \<and> list_all (\<lambda>n. case parentNode w n of None \<Rightarrow> True | Some q \<Rightarrow> q < nextRef w)
                  [0..<nextRef w])"

section \<open>A concrete host\<close>

text \<open>
  A browser window (2) with its document (3), root element (4), popup container
  \<^verbatim>\<open>mainPopupSet\<close> (5) and a toolbar button used as anchor (9); the add-on's hidden
  window (6) with its document (7) and root element (8); a panel (13) as \<^verbatim>\<open>make\<close>
  leaves it, attached to the container, with its view frame (15) as only child and its
  background frame (14) in the add-on window; the panel's anonymous arrow content (10);
  the content document (11) loaded in the background frame, with its root element (12)
  and its window (18), and the blank document (16) of the view frame, with its root
  element (17). The panel is closed and its binding is constructed.
\<close>

definition panel_world :: world where
  "panel_world =
     \<lparr>nextRef = 19,
      parentNode = (\<lambda>_. None)(5 := Some 4, 9 := Some 4, 13 := Some 5, 14 := Some 8, 15 := Some 13),
      childNodes = (\<lambda>_. [])(4 := [5, 9], 5 := [13], 8 := [14], 13 := [15]),
      ownerDocument = (\<lambda>_. None)(4 := Some 3, 5 := Some 3, 9 := Some 3, 10 := Some 3, 13 := Some 3,
                                    15 := Some 3, 8 := Some 7, 14 := Some 7, 12 := Some 11,
                                    17 := Some 16),
      nodeName = (\<lambda>_. [])(4 := ''window'', 5 := ''popupset'', 8 := ''window'',
                            9 := ''toolbarbutton'', 10 := ''box'', 12 := ''html'', 13 := ''panel'',
                            14 := ''iframe'', 15 := ''iframe'', 17 := ''html''),
      namespaceURI = (\<lambda>_. XUL_NS)(12 := XHTML_NS, 17 := XHTML_NS),
      elemId = (\<lambda>_. [])(5 := ''mainPopupSet''),
      textContent = (\<lambda>_. []),
      attributes = (\<lambda>_. Map.empty)(13 := [''type'' \<mapsto> ''arrow'']),
      styleProp = (\<lambda>_. Map.empty),
      clientWidth = (\<lambda>_. 0)(4 := 1000),
      clientHeight = (\<lambda>_. 0)(4 := 700),
      rectLeft = (\<lambda>_. 0)(9 := 300),
      rectTop = (\<lambda>_. 0)(9 := 20),
      documentElement = (\<lambda>_. None)(3 := Some 4, 7 := Some 8, 11 := Some 12, 16 := Some 17),
      head = (\<lambda>_. None),
      defaultView = (\<lambda>_. None)(3 := Some 2, 7 := Some 6, 11 := Some 18),
      elementById = (\<lambda>_. Map.empty)(3 := [''mainPopupSet'' \<mapsto> 5]),
      windowDocument = (\<lambda>_. None)(2 := Some 3, 6 := Some 7, 18 := Some 11),
      mozScreenPixelsPerCSSPixel = (\<lambda>_. 1),
      mozInnerScreenX = (\<lambda>_. 0)(2 := 10),
      mozInnerScreenY = (\<lambda>_. 0)(2 := 80),
      availHeight = (\<lambda>_. 0)(2 := 800),
      availWidth = (\<lambda>_. 0)(2 := 1200),
      computedColor = (\<lambda>_. [])(10 := ''rgb(0, 0, 0)''),
      contentDocument = (\<lambda>_. None)(14 := Some 11, 15 := Some 16),
      frameConfig = (\<lambda>_. None)(14 := Some frameOptions, 15 := Some frameOptions),
      popupState = (\<lambda>_. None)(13 := Some ''closed''),
      has_openPopup = (\<lambda>_. False)(13 := True),
      has_hidePopup = (\<lambda>_. False)(13 := True),
      backgroundFrame = (\<lambda>_. None)(13 := Some 14),
      onContentChange = (\<lambda>_. None)(13 := Some (OnContentChange 13)),
      anonymousElement =
        (\<lambda>_ _ _. None)(13 := (\<lambda>_. Map.empty)(''class'' := [''panel-arrowcontent'' \<mapsto> 10])),
      eventListeners = (\<lambda>_. [])
        (13 := [(''popupshowing'', OnDisplayChange 13 14 15, False),
                (''popuphiding'', OnDisplayChange 13 14 15, False),
                (''popupshown'', OnPanelStateChange 13, False),
                (''popuphidden'', OnPanelStateChange 13, False),
                (''DOMContentLoaded'', OnContentReady 13, True),
                (''load'', OnContentLoad 13, True)],
         14 := [(''DOMContentLoaded'', OnContentReady 13, True),
                (''load'', OnContentLoad 13, True)]),
      observers = [(''document-element-inserted'', OnContentChange 13)],
      timers = [],
      calls = [],
      platform = ''linux'',
      mostRecentBrowserWindow = Some 2,
      addonWindow = 6\<rparr>"

text \<open>The same host before the binding of the panel is constructed.\<close>

definition unbound_world :: world where
  "unbound_world = panel_world\<lparr>has_openPopup := (\<lambda>_. False), has_hidePopup := (\<lambda>_. False)\<rparr>"

text \<open>The same host with the panel open.\<close>

definition open_world :: world where
  "open_world = panel_world\<lparr>popupState := (popupState panel_world)(13 := Some ''open'')\<rparr>"




section \<open>Facts about the style shim\<close>

lemma shimDefaultStyle_Returns:
  "shimDefaultStyle w panel = Returns u w1 \<Longrightarrow> \<exists>sp. w1 = w\<lparr>styleProp := sp\<rparr>"
  unfolding shimDefaultStyle_def getAnonymousElementByAttribute_def setStyle_def
  by (cases "ownerDocument w panel";
      cases "anonymousElement w panel ''class'' ''panel-inner-arrowcontent''";
      cases "anonymousElement w panel ''class'' ''panel-arrowcontent''")
     (auto intro: exI[of _ "styleProp w"])

lemma display_Returns_shim:
  "display w panel width height anchor = Returns u w' \<Longrightarrow>
   \<exists>sp. shimDefaultStyle w panel = Returns () (w\<lparr>styleProp := sp\<rparr>)"
  using shimDefaultStyle_Returns[of w panel]
  by (cases "shimDefaultStyle w panel") (auto simp: display_def)

lemmas display_eval =
  display_def shimDefaultStyle_def getAnonymousElementByAttribute_def setStyle_def
  setAttribute_def firstChild_def record_call_def

section \<open>Placement of the popup\<close>






section \<open>The active content frame\<close>

text \<open>
  Claim C9. \<^verbatim>\<open>isOpen(panel)\<close> is true exactly when \<^verbatim>\<open>panel.state\<close> is \<open>open\<close>;
  \<^verbatim>\<open>getContentFrame(panel)\<close> is the view frame (the panel's first child) exactly when the
  panel is open and the background frame otherwise, so that of two different frames
  exactly one is the active one; \<^verbatim>\<open>getContentDocument(panel)\<close> is the content document
  of that frame (reading it from a missing frame raises).
\<close>

theorem isOpen_getContentFrame:
  "isOpen w panel = (popupState w panel = Some ''open'')
   \<and> getContentFrame w panel = (if isOpen w panel then firstChild w panel else backgroundFrame w panel)
   \<and> (firstChild w panel \<noteq> backgroundFrame w panel \<longrightarrow>
        (getContentFrame w panel = firstChild w panel) = isOpen w panel
        \<and> (getContentFrame w panel = backgroundFrame w panel) = (\<not> isOpen w panel))
   \<and> getContentDocument w panel =
        (case getContentFrame w panel of
           None \<Rightarrow> Inl TypeError
         | Some frame \<Rightarrow> Inr (contentDocument w frame))"
  by (auto simp: isOpen_def getContentFrame_def getContentDocument_def)

theorem isOpen_getContentFrame_witness:
  "firstChild panel_world 13 \<noteq> backgroundFrame panel_world 13
   \<and> \<not> isOpen panel_world 13
   \<and> getContentFrame panel_world 13 = Some 14
   \<and> getContentDocument panel_world 13 = Inr (Some 11)
   \<and> firstChild open_world 13 \<noteq> backgroundFrame open_world 13
   \<and> isOpen open_world 13
   \<and> getContentFrame open_world 13 = Some 15
   \<and> getContentDocument open_world 13 = Inr (Some 16)"
proof -
  have f: "firstChild panel_world 13 = Some 15" "backgroundFrame panel_world 13 = Some 14"
          "popupState panel_world 13 = Some ''closed''" "contentDocument panel_world 14 = Some 11"
          "firstChild open_world 13 = Some 15" "backgroundFrame open_world 13 = Some 14"
          "popupState open_world 13 = Some ''open''" "contentDocument open_world 15 = Some 16"
    by (simp_all add: panel_world_def open_world_def firstChild_def)
  from isOpen_getContentFrame[of panel_world 13] isOpen_getContentFrame[of open_world 13]
  show ?thesis by (simp add: f)
qed

section \<open>Closing\<close>

text \<open>
  Claim C8. On a panel whose \<^verbatim>\<open>hidePopup\<close> is undefined, \<^verbatim>\<open>close(panel)\<close> returns
  without raising and without doing anything; on a panel that has the primitive,
  \<^verbatim>\<open>close\<close> invokes it, once. \<^verbatim>\<open>close\<close> never raises.
\<close>

theorem close_tolerates_missing_hidePopup:
  "(\<not> has_hidePopup w panel \<longrightarrow> close w panel = Returns () w)
   \<and> (has_hidePopup w panel \<longrightarrow>
        close w panel = Returns () (w\<lparr>calls := calls w @ [HidePopup panel]\<rparr>))
   \<and> returns (close w panel)"
  by (simp add: close_def record_call_def)

theorem close_tolerates_missing_hidePopup_witness:
  "\<not> has_hidePopup unbound_world 13
   \<and> close unbound_world 13 = Returns () unbound_world
   \<and> has_hidePopup panel_world 13
   \<and> close panel_world 13 = Returns () (panel_world\<lparr>calls := calls panel_world @ [HidePopup 13]\<rparr>)"
proof -
  have f: "\<not> has_hidePopup unbound_world 13" "has_hidePopup panel_world 13"
    by (simp_all add: unbound_world_def panel_world_def)
  from close_tolerates_missing_hidePopup[of unbound_world 13]
       close_tolerates_missing_hidePopup[of panel_world 13] f
  show ?thesis by simp
qed


section \<open>Resizing\<close>

text \<open>
  Claim C3, as the code has it. \<^verbatim>\<open>resize(panel, width, height)\<close> sets the inline width
  and height of the panel's first child, the view frame, to \<open>width\<close> and \<open>height\<close> pixels,
  whatever the state of the panel, and touches the style of no other node; it calls no
  host primitive, so no size-to call; \<^verbatim>\<open>display\<close> resizes the same node to the same
  values. The frame resized is the view frame also while the panel is not open: the
  background frame, then the active content frame, keeps its box.
\<close>

theorem resize_first_child:
  assumes "firstChild w panel = Some frame"
  shows "\<exists>w'. resize w panel width height = Returns () w'
           \<and> styleProp w' frame ''width'' = Some (Px width)
           \<and> styleProp w' frame ''height'' = Some (Px height)
           \<and> (\<forall>n. n \<noteq> frame \<longrightarrow> styleProp w' n = styleProp w n)
           \<and> calls w' = calls w
           \<and> (\<forall>st. resize (w\<lparr>popupState := st\<rparr>) panel width height
                    = Returns () (w'\<lparr>popupState := st\<rparr>))
           \<and> (\<forall>anchor u w2. display w panel width height anchor = Returns u w2 \<longrightarrow>
                  styleProp w2 frame ''width'' = Some (Px width)
                  \<and> styleProp w2 frame ''height'' = Some (Px height))"
proof -
  have d: "styleProp w2 frame ''width'' = Some (Px width)
           \<and> styleProp w2 frame ''height'' = Some (Px height)"
    if r: "display w panel width height anchor = Returns u w2" for anchor u w2
  proof -
    from r obtain sp where s: "shimDefaultStyle w panel = Returns () (w\<lparr>styleProp := sp\<rparr>)"
      using display_Returns_shim by blast
    from assms have c: "childNodes w panel = frame # tl (childNodes w panel)"
      by (cases "childNodes w panel") (simp_all add: firstChild_def)
    show ?thesis
    proof (cases anchor)
      case None
      with r s assms c show ?thesis
        by (cases "ownerDocument w panel"; cases "documentElement w (the (ownerDocument w panel))";
            cases "has_openPopup w panel")
           (auto simp: display_def firstChild_def setStyle_def record_call_def split: list.splits)
    next
      case (Some a)
      with r s assms c show ?thesis
        by (cases "ownerDocument w a"; cases "defaultView w (the (ownerDocument w a))";
            cases "has_openPopup w panel")
           (auto simp: display_def firstChild_def setStyle_def setAttribute_def record_call_def
                       Let_def
                 split: list.splits)
    qed
  qed
  from assms have "resize w panel width height =
      Returns () (w\<lparr>styleProp := (styleProp w)
                       (frame := (styleProp w frame)(''width'' \<mapsto> Px width, ''height'' \<mapsto> Px height))\<rparr>)"
    by (simp add: resize_def setStyle_def)
  moreover from assms have "\<forall>st. resize (w\<lparr>popupState := st\<rparr>) panel width height =
      Returns () (w\<lparr>styleProp := (styleProp w)
                       (frame := (styleProp w frame)(''width'' \<mapsto> Px width, ''height'' \<mapsto> Px height))\<rparr>
                  \<lparr>popupState := st\<rparr>)"
    by (simp add: resize_def setStyle_def firstChild_def)
  ultimately show ?thesis using d by auto
qed

theorem resize_first_child_witness:
  "firstChild panel_world 13 = Some 15
   \<and> returns (resize panel_world 13 300 200)
   \<and> styleProp (world_of (resize panel_world 13 300 200)) 15 ''width'' = Some (Px 300)
   \<and> styleProp (world_of (resize open_world 13 300 200)) 15 ''width'' = Some (Px 300)
   \<and> styleProp (world_of (display panel_world 13 300 200 None)) 15 ''width'' = Some (Px 300)"
proof -
  have f: "firstChild panel_world 13 = Some 15"
    by (simp add: panel_world_def firstChild_def)
  have r: "display panel_world 13 300 200 None
             = Returns () (world_of (display panel_world 13 300 200 None))"
    by (simp add: display_eval panel_world_def)
  from resize_first_child[OF f, of 300 200] obtain w' where
    w': "resize panel_world 13 300 200 = Returns () w'"
        "styleProp w' 15 ''width'' = Some (Px 300)"
        "\<And>st. resize (panel_world\<lparr>popupState := st\<rparr>) 13 300 200
                 = Returns () (w'\<lparr>popupState := st\<rparr>)"
        "\<And>anchor u w2. display panel_world 13 300 200 anchor = Returns u w2 \<Longrightarrow>
            styleProp w2 15 ''width'' = Some (Px 300)"
    by blast
  have "styleProp (world_of (display panel_world 13 300 200 None)) 15 ''width'' = Some (Px 300)"
    using w'(4)[OF r] .
  moreover have "styleProp (world_of (resize open_world 13 300 200)) 15 ''width'' = Some (Px 300)"
    using w'(3)[of "(popupState panel_world)(13 := Some ''open'')"] w'(2)
    by (simp add: open_world_def)
  ultimately show ?thesis using f w'(1,2) by simp
qed

text \<open>On the closed panel of the concrete host the active content frame is the
  background frame (14); \<^verbatim>\<open>resize\<close> leaves its box alone and resizes the view frame (15).\<close>

theorem resize_active_frame_counterexample:
  "returns (resize panel_world 13 300 200)
   \<and> \<not> isOpen (world_of (resize panel_world 13 300 200)) 13
   \<and> getContentFrame (world_of (resize panel_world 13 300 200)) 13 = Some 14
   \<and> styleProp (world_of (resize panel_world 13 300 200)) 14 ''width'' = None
   \<and> styleProp (world_of (resize panel_world 13 300 200)) 14 ''height'' = None
   \<and> styleProp (world_of (resize panel_world 13 300 200)) 15 ''width'' = Some (Px 300)
   \<and> styleProp (world_of (resize panel_world 13 300 200)) 15 ''height'' = Some (Px 200)"
  by (simp add: resize_def setStyle_def firstChild_def getContentFrame_def isOpen_def
                panel_world_def)

section \<open>Opening before the binding exists\<close>

text \<open>
  Claim C4. While the panel has no \<^verbatim>\<open>openPopup\<close>, \<^verbatim>\<open>open(panel, width, height, anchor)\<close>
  does nothing but queue itself with a delay of 50 and the same four arguments; with
  \<^verbatim>\<open>openPopup\<close> present it is \<^verbatim>\<open>display\<close> with these arguments. Started on a host with
  no other timer pending, every firing of the timer while the binding is missing leaves
  exactly that one retry pending and nothing else changed, for any number of firings;
  the first firing after the host has constructed the binding is \<^verbatim>\<open>display\<close> with the
  original arguments.
\<close>

theorem open_retries_until_available:
  "(\<not> has_openPopup w panel \<longrightarrow>
      open' w panel width height anchor =
        Returns () (w\<lparr>timers := timers w @ [(OpenCallback panel width height anchor, 50)]\<rparr>))
   \<and> (has_openPopup w panel \<longrightarrow>
      open' w panel width height anchor = display w panel width height anchor)
   \<and> (\<not> has_openPopup w panel \<and> timers w = [] \<longrightarrow>
       (\<forall>k. run_events (replicate k TimerFires) (world_of (open' w panel width height anchor))
               = Returns () (w\<lparr>timers := [(OpenCallback panel width height anchor, 50)]\<rparr>))
       \<and> (\<forall>k. run_events (replicate k TimerFires @ [BindingConstructed panel, TimerFires])
                 (world_of (open' w panel width height anchor))
               = display (w\<lparr>has_openPopup := (has_openPopup w)(panel := True),
                             has_hidePopup := (has_hidePopup w)(panel := True)\<rparr>)
                         panel width height anchor))"
proof -
  let ?p = "w\<lparr>timers := [(OpenCallback panel width height anchor, 50)]\<rparr>"
  have step: "host_step TimerFires ?p = Returns () ?p" if "\<not> has_openPopup w panel"
    using that by (simp add: fire_timer_def open'_def setTimeout_def)
  have loop: "run_events (replicate k TimerFires @ evs) ?p = run_events evs ?p"
    if "\<not> has_openPopup w panel" for k evs
    using step[OF that] by (induction k) simp_all
  have fin: "run_events [BindingConstructed panel, TimerFires] ?p
               = display (w\<lparr>has_openPopup := (has_openPopup w)(panel := True),
                             has_hidePopup := (has_hidePopup w)(panel := True)\<rparr>)
                         panel width height anchor"
    if "timers w = []"
  proof -
    have "w\<lparr>has_openPopup := (has_openPopup w)(panel := True),
             has_hidePopup := (has_hidePopup w)(panel := True), timers := []\<rparr>
          = w\<lparr>has_openPopup := (has_openPopup w)(panel := True),
               has_hidePopup := (has_hidePopup w)(panel := True)\<rparr>"
      using that by simp
    then show ?thesis
      by (cases "display (w\<lparr>has_openPopup := (has_openPopup w)(panel := True),
                             has_hidePopup := (has_hidePopup w)(panel := True)\<rparr>)
                         panel width height anchor")
         (simp_all add: fire_timer_def open'_def)
  qed
  show ?thesis
    using loop[of _ "[]"] loop[of _ "[BindingConstructed panel, TimerFires]"] fin
    by (auto simp: open'_def setTimeout_def)
qed

theorem open_retries_until_available_witness:
  "\<not> has_openPopup unbound_world 13 \<and> timers unbound_world = []
   \<and> open' unbound_world 13 300 200 (Some 9)
       = Returns () (unbound_world\<lparr>timers := [(OpenCallback 13 300 200 (Some 9), 50)]\<rparr>)
   \<and> run_events (replicate 3 TimerFires) (world_of (open' unbound_world 13 300 200 (Some 9)))
       = Returns () (unbound_world\<lparr>timers := [(OpenCallback 13 300 200 (Some 9), 50)]\<rparr>)
   \<and> run_events (replicate 3 TimerFires @ [BindingConstructed 13, TimerFires])
          (world_of (open' unbound_world 13 300 200 (Some 9)))
       = display (unbound_world\<lparr>has_openPopup := (has_openPopup unbound_world)(13 := True),
                                 has_hidePopup := (has_hidePopup unbound_world)(13 := True)\<rparr>)
                 13 300 200 (Some 9)
   \<and> has_openPopup panel_world 13
   \<and> open' panel_world 13 300 200 (Some 9) = display panel_world 13 300 200 (Some 9)"
proof -
  have f: "\<not> has_openPopup unbound_world 13" "timers unbound_world = []"
          "has_openPopup panel_world 13"
    by (simp_all add: unbound_world_def panel_world_def)
  note unbound = open_retries_until_available[of unbound_world 13 300 200 "Some 9"]
  from unbound f(1)
  have "open' unbound_world 13 300 200 (Some 9)
          = Returns () (unbound_world\<lparr>timers := timers unbound_world
                                        @ [(OpenCallback 13 300 200 (Some 9), 50)]\<rparr>)"
    by blast
  then have a: "open' unbound_world 13 300 200 (Some 9)
             = Returns () (unbound_world\<lparr>timers := [(OpenCallback 13 300 200 (Some 9), 50)]\<rparr>)"
    by (simp add: f(2))
  from unbound f(1,2)
  have b: "run_events (replicate 3 TimerFires)
                  (world_of (open' unbound_world 13 300 200 (Some 9)))
               = Returns () (unbound_world\<lparr>timers := [(OpenCallback 13 300 200 (Some 9), 50)]\<rparr>)"
    by blast
  from unbound f(1,2)
  have c: "run_events (replicate 3 TimerFires @ [BindingConstructed 13, TimerFires])
                  (world_of (open' unbound_world 13 300 200 (Some 9)))
               = display (unbound_world\<lparr>has_openPopup := (has_openPopup unbound_world)(13 := True),
                                         has_hidePopup := (has_hidePopup unbound_world)(13 := True)\<rparr>)
                         13 300 200 (Some 9)"
    by blast
  from open_retries_until_available[of panel_world 13 300 200 "Some 9"] f(3)
  have d: "open' panel_world 13 300 200 (Some 9) = display panel_world 13 300 200 (Some 9)"
    by blast
  from f a b c d show ?thesis
    by (intro conjI)
qed

section \<open>Attaching and detaching\<close>









end
